theory Spec2Isabelle
  imports Complex_Main "HOL-Library.Word"
begin

section \<open>Machine types\<close>

text \<open>
  The sketch \<^verbatim>\<open>teensy-midi-clock.ino\<close> uses \<^verbatim>\<open>byte\<close>/\<^verbatim>\<open>uint8_t\<close>, \<^verbatim>\<open>uint16_t\<close>,
  \<^verbatim>\<open>uint32_t\<close> and \<^verbatim>\<open>float\<close>. The unsigned integers are words of their width.
\<close>

type_synonym byte = "8 word"
type_synonym uint16 = "16 word"
type_synonym uint32 = "32 word"

section \<open>Single-precision arithmetic\<close>

text \<open>
  A \<^verbatim>\<open>float\<close> is an IEEE 754 binary32 number: 24 significant bits, exponents of the
  unit in the last place from \<open>-149\<close> (subnormals) up to \<open>104\<close>. Every operation is
  evaluated in that format, as on the ARM target of the sketch: the exact result is
  rounded to the nearest representable value, ties to the even significand. A finite
  float is the rational number it denotes; \<open>None\<close> stands for a result that is not a
  finite number (overflow, division by zero) and for everything computed from one.
\<close>

type_synonym float = "rat option"

text \<open>Number of binary digits of a positive integer.\<close>

function bitlen :: "int \<Rightarrow> int" where
  "bitlen n = (if n \<le> 0 then 0 else 1 + bitlen (n div 2))"
  by pat_completeness auto
termination
  by (relation "measure nat") auto

declare bitlen.simps [simp del]

definition pow2 :: "int \<Rightarrow> rat" where
  "pow2 e = (if 0 \<le> e then 2 ^ nat e else 1 / 2 ^ nat (- e))"

text \<open>The binary exponent of a positive rational: \<open>pow2 (ilog2 x) \<le> x < pow2 (ilog2 x + 1)\<close>.\<close>

definition ilog2 :: "rat \<Rightarrow> int" where
  "ilog2 x = (if 1 \<le> x then bitlen \<lfloor>x\<rfloor> - 1 else - bitlen (\<lceil>1 / x\<rceil> - 1))"

definition round_half_even :: "rat \<Rightarrow> int" where
  "round_half_even y =
     (if y - of_int \<lfloor>y\<rfloor> < 1 / 2 then \<lfloor>y\<rfloor>
      else if 1 / 2 < y - of_int \<lfloor>y\<rfloor> then \<lfloor>y\<rfloor> + 1
      else if even \<lfloor>y\<rfloor> then \<lfloor>y\<rfloor> else \<lfloor>y\<rfloor> + 1)"

text \<open>Exponent of the unit in the last place of the binary32 numbers around \<open>x\<close>.\<close>

definition f32_ulp_exp :: "rat \<Rightarrow> int" where
  "f32_ulp_exp x = max (ilog2 \<bar>x\<bar> - 23) (- 149)"

definition round_to_exp :: "int \<Rightarrow> rat \<Rightarrow> rat" where
  "round_to_exp q x = of_int (round_half_even (x / pow2 q)) * pow2 q"

text \<open>A rounded magnitude of \<open>2 ^ 128\<close> or more is an overflow to infinity.\<close>

definition f32_finite :: "rat \<Rightarrow> float" where
  "f32_finite y = (if \<bar>y\<bar> < pow2 128 then Some y else None)"

definition f32_round :: "rat \<Rightarrow> float" where
  "f32_round x =
     (if x = 0 then Some 0
      else f32_finite (sgn x * round_to_exp (f32_ulp_exp x) \<bar>x\<bar>))"

fun f32_add :: "float \<Rightarrow> float \<Rightarrow> float" where
  "f32_add (Some a) (Some b) = f32_round (a + b)"
| "f32_add _ _ = None"

fun f32_mul :: "float \<Rightarrow> float \<Rightarrow> float" where
  "f32_mul (Some a) (Some b) = f32_round (a * b)"
| "f32_mul _ _ = None"

fun f32_div :: "float \<Rightarrow> float \<Rightarrow> float" where
  "f32_div (Some a) (Some b) = (if b = 0 then None else f32_round (a / b))"
| "f32_div _ _ = None"

text \<open>\<^verbatim>\<open>static_cast<float>(n)\<close> of an unsigned integer.\<close>

definition f32_of_nat :: "nat \<Rightarrow> float" where
  "f32_of_nat n = f32_round (of_nat n)"

text \<open>
  \<^verbatim>\<open>static_cast<uint32_t>(x)\<close> discards the fractional part; the conversion is undefined
  (\<open>None\<close>) when the truncated value does not fit the type.
\<close>

fun f32_to_u32 :: "float \<Rightarrow> uint32 option" where
  "f32_to_u32 (Some x) =
     (if 0 \<le> x \<and> x < 2 ^ 32 then Some (word_of_int \<lfloor>x\<rfloor>)
      else if - 1 < x \<and> x < 0 then Some 0
      else None)"
| "f32_to_u32 None = None"

section \<open>Constants of the sketch\<close>

definition MIDI_CLOCK_PPN :: nat where
  "MIDI_CLOCK_PPN = 24"

definition MIN_PER_SEC :: float where
  "MIN_PER_SEC = f32_div (Some 1) (Some 60)"

definition SEC_PER_US :: float where
  "SEC_PER_US = f32_div (Some 1) (Some 1000000)"

definition BPM_OFFSET :: float where
  "BPM_OFFSET = Some 40"

definition SPP_BEATS_PER_QUARTER :: nat where
  "SPP_BEATS_PER_QUARTER = 4"

definition SPP_BEATS_PER_MEASURE :: nat where
  "SPP_BEATS_PER_MEASURE = 16"

definition SPP_PULSES_PER_BEAT :: nat where
  "SPP_PULSES_PER_BEAT = MIDI_CLOCK_PPN div SPP_BEATS_PER_QUARTER"

definition LED_BEAT_DIV_RATIO :: nat where
  "LED_BEAT_DIV_RATIO = 2"

definition CC_Tempo :: byte where
  "CC_Tempo = 3"

definition PC_Tempo :: byte where
  "PC_Tempo = 15"

section \<open>Tempo to timer interval\<close>

text \<open>
  \<^verbatim>\<open>static_cast<uint32_t>(1.0f / (static_cast<float>(MIDI_CLOCK_PPN) * BPM * MIN_PER_SEC * SEC_PER_US))\<close>:
  the product associates to the left and every operation is rounded.
\<close>

definition UpdateIntervalFromBPM :: "float \<Rightarrow> uint32 option" where
  "UpdateIntervalFromBPM BPM =
     f32_to_u32 (f32_div (Some 1)
       (f32_mul (f32_mul (f32_mul (f32_of_nat MIDI_CLOCK_PPN) BPM) MIN_PER_SEC) SEC_PER_US))"

text \<open>
  The local \<^verbatim>\<open>clockIntervalUs\<close> of both tempo handlers:
  \<^verbatim>\<open>UpdateIntervalFromBPM(static_cast<float>(value) + BPM_OFFSET)\<close>.
\<close>

definition clockIntervalUs :: "byte \<Rightarrow> uint32 option" where
  "clockIntervalUs v = UpdateIntervalFromBPM (f32_add (f32_of_nat (unat v)) BPM_OFFSET)"

text \<open>
  The interval as the specification writes it: \<open>60 000 000 / (BPM \<times> 24)\<close> microseconds
  with \<open>BPM = v + 40\<close>, truncated.
\<close>

definition spec_ClockInterval :: "nat \<Rightarrow> nat" where
  "spec_ClockInterval v = 60000000 div ((v + 40) * 24)"

text \<open>
  What the single-precision evaluation yields: the truncated quotient, one less at the
  three control values where the rounded reciprocal falls just below an integer.
\<close>

definition float_ClockInterval :: "nat \<Rightarrow> nat" where
  "float_ClockInterval v =
     spec_ClockInterval v - (if v = 10 \<or> v = 60 \<or> v = 160 then 1 else 0)"

section \<open>External services\<close>

text \<open>
  Modelled from the spec: the USB MIDI transport \<^verbatim>\<open>usbMIDI\<close> is an external
  collaborator, and its constants \<^verbatim>\<open>usbMIDI.Clock\<close>, \<^verbatim>\<open>usbMIDI.Start\<close>, \<^verbatim>\<open>usbMIDI.Stop\<close> are
  not declared in the sketch. They are the real-time status bytes of the MIDI standard;
  the handlers only compare against them.
\<close>

definition usbMIDI_Clock :: byte where
  "usbMIDI_Clock = 0xF8"

definition usbMIDI_Start :: byte where
  "usbMIDI_Start = 0xFA"

definition usbMIDI_Continue :: byte where
  "usbMIDI_Continue = 0xFB"

definition usbMIDI_Stop :: byte where
  "usbMIDI_Stop = 0xFC"

text \<open>Inbound messages as the transport decodes them, and the calls made on its sending side.\<close>

datatype midi_msg =
    ControlChange byte byte byte
  | ProgramChange byte byte
  | RealTimeSystem byte
  | SongPosition uint16
  | OtherMessage

datatype usb_call = SendRealTime byte | SendNow

section \<open>Program state\<close>

text \<open>
  The static variables of the sketch, followed by the state of the services it drives:
  the period of the running \<^verbatim>\<open>IntervalTimer\<close> (\<open>None\<close> when stopped), the level of
  \<^verbatim>\<open>LED_BUILTIN\<close>, the calls made so far on the USB MIDI sender, and the inbound messages
  not yet read.
\<close>

record state =
  pulsePending :: bool
  extClockPending :: bool
  pulseCounter :: byte
  SPP :: uint16
  timerEn :: bool
  midiClockTimer :: "uint32 option"
  led :: bool
  usb_out :: "usb_call list"
  usb_in :: "midi_msg list"

definition init :: state where
  "init = \<lparr> pulsePending = False, extClockPending = False, pulseCounter = 0, SPP = 0,
            timerEn = False, midiClockTimer = None, led = False, usb_out = [], usb_in = [] \<rparr>"

text \<open>
  Modelled from the spec: the hardware timer service \<^verbatim>\<open>begin(callback, interval)\<close>,
  \<^verbatim>\<open>update(interval)\<close>, \<^verbatim>\<open>end()\<close>. \<^verbatim>\<open>begin\<close> starts the periodic interrupt, \<^verbatim>\<open>update\<close>
  changes the period of a running timer, \<^verbatim>\<open>end\<close> stops it.
\<close>

definition IntervalTimer_begin :: "uint32 \<Rightarrow> state \<Rightarrow> state" where
  "IntervalTimer_begin us s = s\<lparr>midiClockTimer := Some us\<rparr>"

definition IntervalTimer_update :: "uint32 \<Rightarrow> state \<Rightarrow> state" where
  "IntervalTimer_update us s =
     (case midiClockTimer s of None \<Rightarrow> s | Some _ \<Rightarrow> s\<lparr>midiClockTimer := Some us\<rparr>)"

definition IntervalTimer_end :: "state \<Rightarrow> state" where
  "IntervalTimer_end s = s\<lparr>midiClockTimer := None\<rparr>"

definition digitalWrite_LED :: "bool \<Rightarrow> state \<Rightarrow> state" where
  "digitalWrite_LED level s = s\<lparr>led := level\<rparr>"

definition usbMIDI_sendRealTime :: "byte \<Rightarrow> state \<Rightarrow> state" where
  "usbMIDI_sendRealTime b s = s\<lparr>usb_out := usb_out s @ [SendRealTime b]\<rparr>"

definition usbMIDI_send_now :: "state \<Rightarrow> state" where
  "usbMIDI_send_now s = s\<lparr>usb_out := usb_out s @ [SendNow]\<rparr>"

section \<open>Interrupt service routine\<close>

definition TimerISR :: "state \<Rightarrow> state" where
  "TimerISR s = s\<lparr>pulsePending := True\<rparr>"

section \<open>Event handlers\<close>

text \<open>
  The two tempo handlers compute the interval and then reprogram or start the timer.
  A handler yields \<open>None\<close> only if the interval computation does.
\<close>

definition CC_Handler :: "byte \<Rightarrow> byte \<Rightarrow> byte \<Rightarrow> state \<Rightarrow> state option" where
  "CC_Handler channel control val s =
     (if control = CC_Tempo then
        (case clockIntervalUs val of
           None \<Rightarrow> None
         | Some us \<Rightarrow>
             if timerEn s then Some (IntervalTimer_update us s)
             else Some ((IntervalTimer_begin us s)\<lparr>timerEn := True\<rparr>))
      else Some s)"

definition PC_Handler :: "byte \<Rightarrow> byte \<Rightarrow> state \<Rightarrow> state option" where
  "PC_Handler channel val s =
     (if channel = PC_Tempo then
        (case clockIntervalUs val of
           None \<Rightarrow> None
         | Some us \<Rightarrow>
             if timerEn s then Some (IntervalTimer_update us s)
             else Some ((IntervalTimer_begin us s)\<lparr>timerEn := True\<rparr>))
      else Some s)"

definition RealTimeSystemHandler :: "byte \<Rightarrow> state \<Rightarrow> state" where
  "RealTimeSystemHandler realtimebyte s =
     (if realtimebyte = usbMIDI_Start then
        (let s1 = s\<lparr>pulseCounter := 0\<rparr>
         in if timerEn s1 then (IntervalTimer_end s1)\<lparr>timerEn := False\<rparr> else s1)
      else if realtimebyte = usbMIDI_Stop then
        (if timerEn s then (IntervalTimer_end s)\<lparr>timerEn := False\<rparr> else s)
      else if realtimebyte = usbMIDI_Clock then
        s\<lparr>extClockPending := True\<rparr>
      else s)"

text \<open>
  The song position code is compiled only with \<^verbatim>\<open>SPP_SYNC\<close> defined. The condition
  \<^verbatim>\<open>if (SPP % SPP_BEATS_PER_MEASURE)\<close> holds when the remainder is not zero.
\<close>

definition SongPositionHandler :: "uint16 \<Rightarrow> state \<Rightarrow> state" where
  "SongPositionHandler beats s =
     (let s1 = s\<lparr>SPP := beats\<rparr>
      in if unat (SPP s1) mod SPP_BEATS_PER_MEASURE \<noteq> 0 then s1\<lparr>pulseCounter := 0\<rparr> else s1)"

definition SongPositionIncrement :: "state \<Rightarrow> state" where
  "SongPositionIncrement s =
     (let s1 = s\<lparr>SPP := SPP s + 1\<rparr> in SongPositionHandler (SPP s1) s1)"

text \<open>
  \<open>spp_sync\<close> tells whether \<^verbatim>\<open>SPP_SYNC\<close> is defined; the sketch as it stands leaves it
  undefined. The counter is promoted to \<^verbatim>\<open>unsigned int\<close> before \<^verbatim>\<open>+ 1\<close> and \<^verbatim>\<open>%\<close>, so
  the sum does not wrap at 8 bits.
\<close>

definition ClockPulseHandler :: "bool \<Rightarrow> state \<Rightarrow> state" where
  "ClockPulseHandler spp_sync s =
     (let s1 = (if pulseCounter s = 0 then digitalWrite_LED True s
                else if unat (pulseCounter s) = MIDI_CLOCK_PPN div LED_BEAT_DIV_RATIO
                  then digitalWrite_LED False s
                else s);
          s2 = s1\<lparr>pulseCounter := of_nat ((unat (pulseCounter s1) + 1) mod MIDI_CLOCK_PPN)\<rparr>
      in if spp_sync \<and> unat (pulseCounter s2) mod SPP_PULSES_PER_BEAT = 0
         then SongPositionIncrement s2 else s2)"

section \<open>Main loop\<close>

text \<open>
  Modelled from the spec: \<^verbatim>\<open>usbMIDI.read()\<close> takes one inbound message, if there is one,
  and calls the handler that \<^verbatim>\<open>setup\<close> registered for its kind: control change,
  real-time system, program change, and song position when \<^verbatim>\<open>SPP_SYNC\<close> is defined.
\<close>

definition usbMIDI_read :: "bool \<Rightarrow> state \<Rightarrow> state option" where
  "usbMIDI_read spp_sync s =
     (case usb_in s of
        [] \<Rightarrow> Some s
      | m # rest \<Rightarrow>
          (let s1 = s\<lparr>usb_in := rest\<rparr>
           in case m of
                ControlChange channel control val \<Rightarrow> CC_Handler channel control val s1
              | ProgramChange channel val \<Rightarrow> PC_Handler channel val s1
              | RealTimeSystem b \<Rightarrow> Some (RealTimeSystemHandler b s1)
              | SongPosition beats \<Rightarrow>
                  Some (if spp_sync then SongPositionHandler beats s1 else s1)
              | OtherMessage \<Rightarrow> Some s1))"

definition loop :: "bool \<Rightarrow> state \<Rightarrow> state option" where
  "loop spp_sync s =
     (if pulsePending s then
        Some (ClockPulseHandler spp_sync
          ((usbMIDI_send_now (usbMIDI_sendRealTime usbMIDI_Clock s))\<lparr>pulsePending := False\<rparr>))
      else if extClockPending s then
        Some (ClockPulseHandler spp_sync (s\<lparr>extClockPending := False\<rparr>))
      else usbMIDI_read spp_sync s)"

text \<open>
  The states the running sketch can be in: from \<open>init\<close>, by one pass of \<open>loop\<close>, by the
  timer interrupt while the timer runs, and by the arrival of an inbound message.
\<close>

inductive reachable :: "bool \<Rightarrow> state \<Rightarrow> bool" for spp_sync :: bool where
  reach_init: "reachable spp_sync init"
| reach_loop: "reachable spp_sync s \<Longrightarrow> loop spp_sync s = Some s' \<Longrightarrow> reachable spp_sync s'"
| reach_isr: "reachable spp_sync s \<Longrightarrow> midiClockTimer s \<noteq> None \<Longrightarrow> reachable spp_sync (TimerISR s)"
| reach_recv: "reachable spp_sync s \<Longrightarrow> reachable spp_sync (s\<lparr>usb_in := usb_in s @ [m]\<rparr>)"

text \<open>The run-state flag agrees with the hardware timer.\<close>

definition timer_consistent :: "state \<Rightarrow> bool" where
  "timer_consistent s = (timerEn s = (midiClockTimer s \<noteq> None))"

section \<open>Evaluating the single-precision model\<close>

lemma bitlen_numeral: "bitlen (numeral k) = 1 + bitlen (numeral k div 2)"
  by (subst bitlen.simps) simp

lemma bitlen_0: "bitlen 0 = 0"
  by (subst bitlen.simps) simp

lemma bitlen_1: "bitlen 1 = 1"
  by (subst bitlen.simps) (simp add: bitlen_0)

lemma floor_rat_numeral: "\<lfloor>numeral a / numeral b :: rat\<rfloor> = numeral a div numeral b"
  by (metis floor_divide_of_int_eq of_int_numeral)

lemma floor_rat_one: "\<lfloor>1 / numeral b :: rat\<rfloor> = 1 div numeral b"
  by (metis floor_divide_of_int_eq of_int_1 of_int_numeral)

lemma ceiling_rat_numeral: "\<lceil>numeral a / numeral b :: rat\<rceil> = - (- numeral a div numeral b)"
  by (metis ceiling_divide_eq_div of_int_numeral)

lemmas f32_eval =
  bitlen_numeral bitlen_0 bitlen_1 floor_rat_numeral floor_rat_one ceiling_rat_numeral
  pow2_def ilog2_def round_half_even_def f32_ulp_exp_def round_to_exp_def f32_finite_def
  f32_round_def f32_of_nat_def MIDI_CLOCK_PPN_def

lemma MIN_PER_SEC_value: "MIN_PER_SEC = Some (8947849 / 536870912)"
  by (simp add: MIN_PER_SEC_def f32_eval)

lemma SEC_PER_US_value: "SEC_PER_US = Some (8796093 / 8796093022208)"
  by (simp add: SEC_PER_US_def f32_eval)

lemmas interval_eval =
  clockIntervalUs_def UpdateIntervalFromBPM_def BPM_OFFSET_def MIN_PER_SEC_value
  SEC_PER_US_value spec_ClockInterval_def float_ClockInterval_def f32_eval

text \<open>
  Known binary32 values as a check of the rounding: \<open>0.1f\<close> and \<open>-1/3\<close>, ties to the even
  significand above \<open>2 ^ 24\<close>, the largest finite number and the overflow threshold, and
  the smallest subnormal.
\<close>

lemma f32_round_examples:
  "f32_round (1 / 10) = Some (13421773 / 134217728)"
  "f32_round (- (1 / 3)) = Some (- (11184811 / 33554432))"
  "f32_round 16777217 = Some 16777216"
  "f32_round 16777219 = Some 16777220"
  "f32_round (2 ^ 128 - 2 ^ 104) = Some (2 ^ 128 - 2 ^ 104)"
  "f32_round (2 ^ 128 - 2 ^ 103) = None"
  "f32_round (1 / 2 ^ 150) = Some 0"
  "f32_round (3 / 2 ^ 150) = Some (1 / 2 ^ 148)"
  by (simp_all add: f32_eval)

text \<open>The computation at 50 BPM (control value 10), operation by operation.\<close>

lemma interval_trace_50_bpm:
  "f32_add (f32_of_nat 10) BPM_OFFSET = Some 50"
  "f32_mul (f32_of_nat MIDI_CLOCK_PPN) (Some 50) = Some 1200"
  "f32_mul (Some 1200) MIN_PER_SEC = Some (10485761 / 524288)"
  "f32_mul (Some (10485761 / 524288)) SEC_PER_US = Some (10995117 / 549755813888)"
  "f32_div (Some 1) (Some (10995117 / 549755813888)) = Some (12799999 / 256)"
  "f32_to_u32 (Some (12799999 / 256)) = Some 49999"
  by (simp_all add: interval_eval)

section \<open>The interval for every control value\<close>

lemma interval_chunk_0:
  "list_all (\<lambda>n. clockIntervalUs (of_nat n) = Some (of_nat (float_ClockInterval n))) [0..<16]"
  by (simp add: upt_rec interval_eval)

lemma interval_chunk_1:
  "list_all (\<lambda>n. clockIntervalUs (of_nat n) = Some (of_nat (float_ClockInterval n))) [16..<32]"
  by (simp add: upt_rec interval_eval)

lemma interval_chunk_2:
  "list_all (\<lambda>n. clockIntervalUs (of_nat n) = Some (of_nat (float_ClockInterval n))) [32..<48]"
  by (simp add: upt_rec interval_eval)

lemma interval_chunk_3:
  "list_all (\<lambda>n. clockIntervalUs (of_nat n) = Some (of_nat (float_ClockInterval n))) [48..<64]"
  by (simp add: upt_rec interval_eval)

lemma interval_chunk_4:
  "list_all (\<lambda>n. clockIntervalUs (of_nat n) = Some (of_nat (float_ClockInterval n))) [64..<80]"
  by (simp add: upt_rec interval_eval)

lemma interval_chunk_5:
  "list_all (\<lambda>n. clockIntervalUs (of_nat n) = Some (of_nat (float_ClockInterval n))) [80..<96]"
  by (simp add: upt_rec interval_eval)

lemma interval_chunk_6:
  "list_all (\<lambda>n. clockIntervalUs (of_nat n) = Some (of_nat (float_ClockInterval n))) [96..<112]"
  by (simp add: upt_rec interval_eval)

lemma interval_chunk_7:
  "list_all (\<lambda>n. clockIntervalUs (of_nat n) = Some (of_nat (float_ClockInterval n))) [112..<128]"
  by (simp add: upt_rec interval_eval)

lemma interval_chunk_8:
  "list_all (\<lambda>n. clockIntervalUs (of_nat n) = Some (of_nat (float_ClockInterval n))) [128..<144]"
  by (simp add: upt_rec interval_eval)

lemma interval_chunk_9:
  "list_all (\<lambda>n. clockIntervalUs (of_nat n) = Some (of_nat (float_ClockInterval n))) [144..<160]"
  by (simp add: upt_rec interval_eval)

lemma interval_chunk_10:
  "list_all (\<lambda>n. clockIntervalUs (of_nat n) = Some (of_nat (float_ClockInterval n))) [160..<176]"
  by (simp add: upt_rec interval_eval)

lemma interval_chunk_11:
  "list_all (\<lambda>n. clockIntervalUs (of_nat n) = Some (of_nat (float_ClockInterval n))) [176..<192]"
  by (simp add: upt_rec interval_eval)

lemma interval_chunk_12:
  "list_all (\<lambda>n. clockIntervalUs (of_nat n) = Some (of_nat (float_ClockInterval n))) [192..<208]"
  by (simp add: upt_rec interval_eval)

lemma interval_chunk_13:
  "list_all (\<lambda>n. clockIntervalUs (of_nat n) = Some (of_nat (float_ClockInterval n))) [208..<224]"
  by (simp add: upt_rec interval_eval)

lemma interval_chunk_14:
  "list_all (\<lambda>n. clockIntervalUs (of_nat n) = Some (of_nat (float_ClockInterval n))) [224..<240]"
  by (simp add: upt_rec interval_eval)

lemma interval_chunk_15:
  "list_all (\<lambda>n. clockIntervalUs (of_nat n) = Some (of_nat (float_ClockInterval n))) [240..<256]"
  by (simp add: upt_rec interval_eval)

lemma list_all_uptD: "list_all P [a..<b] \<Longrightarrow> a \<le> n \<Longrightarrow> n < b \<Longrightarrow> P n"
  by (simp add: list_all_iff)

lemma list_all_upt_join:
  assumes "list_all P [a..<b]" and "list_all P [b..<c]"
  shows "list_all P [a..<c]"
  unfolding list_all_iff
proof
  fix n assume "n \<in> set [a..<c]"
  then have "a \<le> n" and "n < c" by simp_all
  show "P n"
  proof (cases "n < b")
    case True
    with \<open>a \<le> n\<close> show ?thesis by (rule list_all_uptD [OF assms(1)])
  next
    case False
    then have "b \<le> n" by simp
    then show ?thesis using \<open>n < c\<close> by (rule list_all_uptD [OF assms(2)])
  qed
qed

lemma interval_all:
  "list_all (\<lambda>n. clockIntervalUs (of_nat n) = Some (of_nat (float_ClockInterval n))) [0..<256]"
  by (intro list_all_upt_join [OF interval_chunk_0] list_all_upt_join [OF interval_chunk_1]
    list_all_upt_join [OF interval_chunk_2] list_all_upt_join [OF interval_chunk_3]
    list_all_upt_join [OF interval_chunk_4] list_all_upt_join [OF interval_chunk_5]
    list_all_upt_join [OF interval_chunk_6] list_all_upt_join [OF interval_chunk_7]
    list_all_upt_join [OF interval_chunk_8] list_all_upt_join [OF interval_chunk_9]
    list_all_upt_join [OF interval_chunk_10] list_all_upt_join [OF interval_chunk_11]
    list_all_upt_join [OF interval_chunk_12] list_all_upt_join [OF interval_chunk_13]
    list_all_upt_join [OF interval_chunk_14] interval_chunk_15)

lemma clockIntervalUs_byte:
  "clockIntervalUs v = Some (of_nat (float_ClockInterval (unat v)))"
  using list_all_uptD [OF interval_all, of "unat v"] unsigned_less [of v] by simp

lemma spec_ClockInterval_bounds:
  assumes "n < 256"
  shows "8474 \<le> spec_ClockInterval n" and "spec_ClockInterval n \<le> 62500"
proof -
  have "(n + 40) * 24 \<le> 7080" and "960 \<le> (n + 40) * 24" and "0 < (n + 40) * 24"
    using assms by simp_all
  then have "60000000 div 7080 \<le> (60000000::nat) div ((n + 40) * 24)"
    and "(60000000::nat) div ((n + 40) * 24) \<le> 60000000 div 960"
    by (simp_all only: div_le_mono2)
  then show "8474 \<le> spec_ClockInterval n" and "spec_ClockInterval n \<le> 62500"
    by (simp_all add: spec_ClockInterval_def)
qed

lemma spec_ClockInterval_step:
  assumes "n < 255"
  shows "spec_ClockInterval (Suc n) + 2 \<le> spec_ClockInterval n"
proof -
  define q where "q = spec_ClockInterval (Suc n)"
  have q_ge: "8474 \<le> q"
    unfolding q_def using assms by (intro spec_ClockInterval_bounds) simp
  have "q * ((Suc n + 40) * 24) \<le> 60000000"
    unfolding q_def spec_ClockInterval_def by (rule div_times_less_eq_dividend)
  moreover have "(q + 2) * ((n + 40) * 24) \<le> q * ((Suc n + 40) * 24)"
    using q_ge assms by (simp add: algebra_simps)
  ultimately have "(q + 2) * ((n + 40) * 24) \<le> 60000000"
    by (rule order_trans [rotated])
  then have "q + 2 \<le> 60000000 div ((n + 40) * 24)"
    by (simp add: less_eq_div_iff_mult_less_eq)
  then show ?thesis
    by (simp add: q_def spec_ClockInterval_def)
qed

lemma float_ClockInterval_bounds:
  assumes "n < 256"
  shows "0 < float_ClockInterval n" and "float_ClockInterval n < 2 ^ 32"
  using spec_ClockInterval_bounds [OF assms] by (simp_all add: float_ClockInterval_def)

lemma unat_float_ClockInterval:
  "n < 256 \<Longrightarrow> unat (of_nat (float_ClockInterval n) :: uint32) = float_ClockInterval n"
  using float_ClockInterval_bounds(2) [of n] by (simp add: unat_of_nat)

lemma float_ClockInterval_step:
  assumes "n < 255"
  shows "float_ClockInterval (Suc n) < float_ClockInterval n"
proof -
  have "float_ClockInterval (Suc n) \<le> spec_ClockInterval (Suc n)"
    by (simp add: float_ClockInterval_def)
  moreover have "spec_ClockInterval n - 1 \<le> float_ClockInterval n"
    by (simp add: float_ClockInterval_def)
  ultimately show ?thesis
    using spec_ClockInterval_step [OF assms] by linarith
qed

lemma float_ClockInterval_decreasing:
  "i < j \<Longrightarrow> j < 256 \<Longrightarrow> float_ClockInterval j < float_ClockInterval i"
proof (induction j)
  case 0
  then show ?case by simp
next
  case (Suc j)
  have step: "float_ClockInterval (Suc j) < float_ClockInterval j"
    using Suc.prems by (intro float_ClockInterval_step) simp
  show ?case
  proof (cases "i = j")
    case True
    with step show ?thesis by simp
  next
    case False
    with Suc.prems have "i < j" and "j < 256" by simp_all
    with Suc.IH step show ?thesis by simp
  qed
qed

section \<open>Facts about the handlers\<close>

lemmas service_defs =
  IntervalTimer_begin_def IntervalTimer_update_def IntervalTimer_end_def digitalWrite_LED_def
  usbMIDI_sendRealTime_def usbMIDI_send_now_def

lemmas const_defs =
  MIDI_CLOCK_PPN_def LED_BEAT_DIV_RATIO_def SPP_BEATS_PER_MEASURE_def SPP_BEATS_PER_QUARTER_def
  SPP_PULSES_PER_BEAT_def CC_Tempo_def PC_Tempo_def
  usbMIDI_Clock_def usbMIDI_Start_def usbMIDI_Stop_def usbMIDI_Continue_def

lemma unat_next_pulse:
  "unat (of_nat ((unat (c :: byte) + 1) mod 24) :: byte) = (unat c + 1) mod 24"
proof -
  have "(unat c + 1) mod 24 < 24" by simp
  then have "(unat c + 1) mod 24 < 2 ^ LENGTH(8)" by simp
  then show ?thesis by (simp only: unat_of_nat mod_less)
qed

lemma unat_next_pulse_Suc:
  "unat (of_nat (Suc (unat (c :: byte)) mod 24) :: byte) = Suc (unat c) mod 24"
  using unat_next_pulse [of c] by simp

lemma SongPositionHandler_frame:
  "SongPositionHandler beats s =
     s\<lparr>SPP := beats, pulseCounter := (if unat beats mod 16 = 0 then pulseCounter s else 0)\<rparr>"
  by (simp add: SongPositionHandler_def const_defs Let_def)

lemma SongPositionIncrement_frame:
  "SongPositionIncrement s =
     s\<lparr>SPP := SPP s + 1,
       pulseCounter := (if unat (SPP s + 1) mod 16 = 0 then pulseCounter s else 0)\<rparr>"
  by (simp add: SongPositionIncrement_def SongPositionHandler_frame Let_def)

lemma ClockPulseHandler_plain:
  "ClockPulseHandler False s =
     s\<lparr>led := (if pulseCounter s = 0 then True else if pulseCounter s = 12 then False else led s),
       pulseCounter := of_nat ((unat (pulseCounter s) + 1) mod 24)\<rparr>"
proof -
  have c12: "unat (pulseCounter s) = 12 \<longleftrightarrow> pulseCounter s = 12"
    by (simp add: word_unat_eq_iff)
  show ?thesis
    by (simp add: ClockPulseHandler_def service_defs const_defs Let_def c12)
qed

lemma ClockPulseHandler_frame:
  "pulsePending (ClockPulseHandler spp t) = pulsePending t"
  "extClockPending (ClockPulseHandler spp t) = extClockPending t"
  "timerEn (ClockPulseHandler spp t) = timerEn t"
  "midiClockTimer (ClockPulseHandler spp t) = midiClockTimer t"
  "usb_out (ClockPulseHandler spp t) = usb_out t"
  "usb_in (ClockPulseHandler spp t) = usb_in t"
  by (simp_all add: ClockPulseHandler_def SongPositionIncrement_frame service_defs Let_def)

lemma ClockPulseHandler_range:
  "unat (pulseCounter (ClockPulseHandler spp t)) < 24"
  by (simp add: ClockPulseHandler_def SongPositionIncrement_frame service_defs const_defs
      Let_def unat_next_pulse_Suc)

lemma RealTimeSystemHandler_range:
  "unat (pulseCounter t) < 24 \<Longrightarrow> unat (pulseCounter (RealTimeSystemHandler b t)) < 24"
  by (simp add: RealTimeSystemHandler_def service_defs Let_def)

lemma tempo_handler_total:
  "\<exists>t'. CC_Handler ch control v t = Some t'" "\<exists>t'. PC_Handler ch v t = Some t'"
  by (simp_all add: CC_Handler_def PC_Handler_def clockIntervalUs_byte)

lemma tempo_handler_frame:
  assumes "CC_Handler ch control v t = Some t' \<or> PC_Handler ch v t = Some t'"
  shows "pulseCounter t' = pulseCounter t" and "led t' = led t" and "usb_out t' = usb_out t"
    and "usb_in t' = usb_in t" and "pulsePending t' = pulsePending t"
    and "extClockPending t' = extClockPending t" and "SPP t' = SPP t"
  using assms
  by (auto simp: CC_Handler_def PC_Handler_def service_defs
      split: if_splits option.splits)

lemma RealTimeSystemHandler_frame:
  "led (RealTimeSystemHandler b t) = led t"
  "usb_out (RealTimeSystemHandler b t) = usb_out t"
  "usb_in (RealTimeSystemHandler b t) = usb_in t"
  "pulsePending (RealTimeSystemHandler b t) = pulsePending t"
  by (simp_all add: RealTimeSystemHandler_def service_defs Let_def)

lemma usbMIDI_read_total: "\<exists>s'. usbMIDI_read spp s = Some s'"
proof (cases "usb_in s")
  case Nil
  then show ?thesis by (simp add: usbMIDI_read_def)
next
  case (Cons m rest)
  then show ?thesis
    using tempo_handler_total
    by (cases m) (simp_all add: usbMIDI_read_def Let_def)
qed

lemma usbMIDI_read_frame:
  assumes "usbMIDI_read spp s = Some s'"
  shows "led s' = led s" and "usb_out s' = usb_out s" and "usb_in s' = tl (usb_in s)"
    and "pulsePending s' = pulsePending s"
proof -
  have "led s' = led s \<and> usb_out s' = usb_out s \<and> usb_in s' = tl (usb_in s)
      \<and> pulsePending s' = pulsePending s"
  proof (cases "usb_in s")
    case Nil
    with assms show ?thesis by (simp add: usbMIDI_read_def)
  next
    case (Cons m rest)
    show ?thesis
    proof (cases m)
      case (ControlChange ch control v)
      with Cons assms have "CC_Handler ch control v (s\<lparr>usb_in := rest\<rparr>) = Some s'"
        by (simp add: usbMIDI_read_def Let_def)
      then show ?thesis
        using tempo_handler_frame [of ch control v "s\<lparr>usb_in := rest\<rparr>" s'] Cons by simp
    next
      case (ProgramChange ch v)
      with Cons assms have "PC_Handler ch v (s\<lparr>usb_in := rest\<rparr>) = Some s'"
        by (simp add: usbMIDI_read_def Let_def)
      then show ?thesis
        using tempo_handler_frame [of ch undefined v "s\<lparr>usb_in := rest\<rparr>" s'] Cons by simp
    next
      case (RealTimeSystem b)
      with Cons assms show ?thesis
        by (auto simp: usbMIDI_read_def Let_def RealTimeSystemHandler_frame)
    next
      case (SongPosition beats)
      with Cons assms show ?thesis
        by (auto simp: usbMIDI_read_def Let_def SongPositionHandler_frame split: if_splits)
    next
      case OtherMessage
      with Cons assms show ?thesis
        by (auto simp: usbMIDI_read_def Let_def)
    qed
  qed
  then show "led s' = led s" and "usb_out s' = usb_out s" and "usb_in s' = tl (usb_in s)"
    and "pulsePending s' = pulsePending s"
    by simp_all
qed

lemma usbMIDI_read_range:
  assumes "usbMIDI_read spp s = Some s'" and "unat (pulseCounter s) < 24"
  shows "unat (pulseCounter s') < 24"
proof (cases "usb_in s")
  case Nil
  with assms show ?thesis by (simp add: usbMIDI_read_def)
next
  case (Cons m rest)
  show ?thesis
  proof (cases m)
    case (ControlChange ch control v)
    with Cons assms have "CC_Handler ch control v (s\<lparr>usb_in := rest\<rparr>) = Some s'"
      by (simp add: usbMIDI_read_def Let_def)
    then show ?thesis
      using tempo_handler_frame(1) [of ch control v "s\<lparr>usb_in := rest\<rparr>" s'] assms(2) by simp
  next
    case (ProgramChange ch v)
    with Cons assms have "PC_Handler ch v (s\<lparr>usb_in := rest\<rparr>) = Some s'"
      by (simp add: usbMIDI_read_def Let_def)
    then show ?thesis
      using tempo_handler_frame(1) [of ch undefined v "s\<lparr>usb_in := rest\<rparr>" s'] assms(2) by simp
  next
    case (RealTimeSystem b)
    with Cons assms show ?thesis
      using RealTimeSystemHandler_range [of "s\<lparr>usb_in := rest\<rparr>" b]
      by (auto simp: usbMIDI_read_def Let_def)
  next
    case (SongPosition beats)
    with Cons assms show ?thesis
      by (auto simp: usbMIDI_read_def Let_def SongPositionHandler_frame split: if_splits)
  next
    case OtherMessage
    with Cons assms show ?thesis
      by (auto simp: usbMIDI_read_def Let_def)
  qed
qed

lemma loop_range:
  assumes "loop spp s = Some s'" and "unat (pulseCounter s) < 24"
  shows "unat (pulseCounter s') < 24"
proof (cases "pulsePending s \<or> extClockPending s")
  case True
  with assms(1) show ?thesis
    by (auto simp: loop_def ClockPulseHandler_range split: if_splits)
next
  case False
  with assms(1) have "usbMIDI_read spp s = Some s'"
    by (simp add: loop_def)
  then show ?thesis using assms(2) by (rule usbMIDI_read_range)
qed

lemma reachable_range: "reachable spp s \<Longrightarrow> unat (pulseCounter s) < 24"
proof (induction rule: reachable.induct)
  case reach_init
  show ?case by (simp add: init_def)
next
  case (reach_loop s s')
  then show ?case by (simp add: loop_range)
next
  case (reach_isr s)
  then show ?case by (simp add: TimerISR_def)
next
  case (reach_recv s m)
  then show ?case by simp
qed

lemma reachable_timer_consistent: "reachable spp s \<Longrightarrow> timer_consistent s"
proof (induction rule: reachable.induct)
  case reach_init
  show ?case by (simp add: init_def timer_consistent_def)
next
  case (reach_loop s s')
  show ?case
  proof (cases "pulsePending s \<or> extClockPending s")
    case True
    with reach_loop show ?thesis
      by (auto simp: loop_def timer_consistent_def ClockPulseHandler_frame service_defs
          split: if_splits)
  next
    case False
    with reach_loop have r: "usbMIDI_read spp s = Some s'"
      by (simp add: loop_def)
    show ?thesis
    proof (cases "usb_in s")
      case Nil
      with r reach_loop.IH show ?thesis by (simp add: usbMIDI_read_def)
    next
      case (Cons m rest)
      with r reach_loop.IH show ?thesis
        by (cases m)
          (auto simp: usbMIDI_read_def Let_def timer_consistent_def CC_Handler_def
            PC_Handler_def RealTimeSystemHandler_def SongPositionHandler_frame service_defs
            split: if_splits option.splits)
    qed
  qed
next
  case (reach_isr s)
  then show ?case by (simp add: TimerISR_def timer_consistent_def)
next
  case (reach_recv s m)
  then show ?case by (simp add: timer_consistent_def)
qed

section \<open>Tempo mapping\<close>

text \<open>
  \<^bold>\<open>C1\<close> (as the code has it). For every control value \<open>v\<close> in \<open>[0, 127]\<close> the tempo handlers
  obtain an interval: it is \<open>60 000 000 / ((v + 40) \<times> 24)\<close> truncated to the microsecond,
  except at \<open>v = 10\<close> and \<open>v = 60\<close> (50 and 100 BPM), where the single-precision result is
  one microsecond less; the interval is strictly positive. At \<open>v = 20\<close> it is 41666.
\<close>

theorem C1_tempo_interval:
  assumes "unat v \<le> 127"
  shows "\<exists>us. clockIntervalUs v = Some us
           \<and> unat us = spec_ClockInterval (unat v) - (if v = 10 \<or> v = 60 then 1 else 0)
           \<and> 0 < unat us"
proof -
  let ?us = "of_nat (float_ClockInterval (unat v)) :: uint32"
  have lt: "unat v < 256" using assms by simp
  have v10: "unat v = 10 \<longleftrightarrow> v = 10" and v60: "unat v = 60 \<longleftrightarrow> v = 60"
    by (simp_all add: word_unat_eq_iff)
  have ne: "unat v \<noteq> 160" using assms by simp
  have "unat ?us = float_ClockInterval (unat v)"
    by (rule unat_float_ClockInterval [OF lt])
  moreover have "float_ClockInterval (unat v)
      = spec_ClockInterval (unat v) - (if v = 10 \<or> v = 60 then 1 else 0)"
    using ne by (simp add: float_ClockInterval_def v10 v60)
  moreover have "0 < float_ClockInterval (unat v)"
    by (rule float_ClockInterval_bounds(1) [OF lt])
  ultimately show ?thesis
    using clockIntervalUs_byte [of v] by simp
qed

theorem C1_tempo_interval_witness:
  "unat (20 :: byte) \<le> 127 \<and> clockIntervalUs 20 = Some 41666"
proof -
  have h: "unat (20 :: byte) \<le> 127" by simp
  obtain us where us: "clockIntervalUs 20 = Some us"
    and "unat us = spec_ClockInterval (unat (20 :: byte))
           - (if (20 :: byte) = 10 \<or> (20 :: byte) = 60 then 1 else 0)"
    using C1_tempo_interval [OF h] by blast
  then have "unat us = unat (41666 :: uint32)"
    by (simp add: spec_ClockInterval_def)
  then have "us = 41666"
    by (simp only: word_unat_eq_iff)
  with us h show ?thesis by simp
qed

text \<open>
  \<^bold>\<open>C1\<close>, as stated, fails at \<open>v = 10\<close>: the quotient \<open>60 000 000 / (50 \<times> 24)\<close> is exactly
  50000, but the rounded single-precision reciprocal is \<open>49999.99609375\<close> and truncates to
  49999.
\<close>

theorem C1_counterexample:
  "clockIntervalUs 10 = Some 49999 \<and> spec_ClockInterval 10 = 50000
     \<and> clockIntervalUs 10 \<noteq> Some (of_nat (spec_ClockInterval 10))"
  using clockIntervalUs_byte [of 10]
  by (simp add: float_ClockInterval_def spec_ClockInterval_def)

text \<open>
  \<^bold>\<open>C8\<close>. For control values \<open>v1 < v2\<close> in \<open>[0, 127]\<close> both intervals exist, the interval
  for \<open>v2\<close> is smaller than the one for \<open>v1\<close>, and it is strictly positive.
\<close>

theorem C8_interval_decreasing:
  assumes "unat v1 < unat v2" and "unat v2 \<le> 127"
  shows "\<exists>us1 us2. clockIntervalUs v1 = Some us1 \<and> clockIntervalUs v2 = Some us2
           \<and> us2 < us1 \<and> 0 < us2"
proof -
  have lt2: "unat v2 < 256" and lt1: "unat v1 < 256"
    using assms by simp_all
  have "float_ClockInterval (unat v2) < float_ClockInterval (unat v1)"
    using float_ClockInterval_decreasing [OF assms(1) lt2] .
  then have "(of_nat (float_ClockInterval (unat v2)) :: uint32)
      < of_nat (float_ClockInterval (unat v1))"
    by (simp add: word_less_nat_alt unat_float_ClockInterval lt1 lt2)
  moreover have "(0 :: uint32) < of_nat (float_ClockInterval (unat v2))"
    using float_ClockInterval_bounds(1) [OF lt2]
    by (simp add: word_less_nat_alt unat_float_ClockInterval lt2)
  ultimately show ?thesis
    using clockIntervalUs_byte [of v1] clockIntervalUs_byte [of v2] by simp
qed

theorem C8_interval_decreasing_witness:
  "unat (0 :: byte) < unat (127 :: byte) \<and> unat (127 :: byte) \<le> 127
     \<and> clockIntervalUs 0 = Some 62500 \<and> clockIntervalUs 127 = Some 14970
     \<and> (14970 :: uint32) < 62500 \<and> (0 :: uint32) < 14970"
proof -
  have h1: "unat (0 :: byte) < unat (127 :: byte)" and h2: "unat (127 :: byte) \<le> 127"
    by simp_all
  obtain us1 us2 where "clockIntervalUs 0 = Some us1" and "clockIntervalUs 127 = Some us2"
    and "us2 < us1" and "0 < us2"
    using C8_interval_decreasing [OF h1 h2] by blast
  moreover have "clockIntervalUs 0 = Some 62500" and "clockIntervalUs 127 = Some 14970"
    using clockIntervalUs_byte [of 0] clockIntervalUs_byte [of 127]
    by (simp_all add: float_ClockInterval_def spec_ClockInterval_def)
  ultimately show ?thesis using h1 h2 by simp
qed

section \<open>Transport messages\<close>

text \<open>
  \<^bold>\<open>C2\<close>. In every state the real-time Start message resets \<open>pulseCounter\<close> to 0; when the
  timer was armed it also stops the timer and clears \<open>timerEn\<close>; when it was not armed,
  nothing but \<open>pulseCounter\<close> changes.
\<close>

theorem C2_start_resets_and_disarms:
  "RealTimeSystemHandler usbMIDI_Start s =
     (if timerEn s then s\<lparr>pulseCounter := 0, midiClockTimer := None, timerEn := False\<rparr>
      else s\<lparr>pulseCounter := 0\<rparr>)"
  by (simp add: RealTimeSystemHandler_def service_defs Let_def)

text \<open>
  \<^bold>\<open>C7\<close>. In every state the real-time Stop message stops the timer and clears \<open>timerEn\<close>
  when the timer was armed and changes nothing else; when it was not armed the state is
  unchanged. \<open>pulseCounter\<close> keeps its value, and a second Stop changes nothing.
\<close>

theorem C7_stop_disarms_only:
  "RealTimeSystemHandler usbMIDI_Stop s =
     (if timerEn s then s\<lparr>midiClockTimer := None, timerEn := False\<rparr> else s)
   \<and> pulseCounter (RealTimeSystemHandler usbMIDI_Stop s) = pulseCounter s
   \<and> RealTimeSystemHandler usbMIDI_Stop (RealTimeSystemHandler usbMIDI_Stop s)
       = RealTimeSystemHandler usbMIDI_Stop s"
  by (simp add: RealTimeSystemHandler_def service_defs const_defs)

text \<open>
  \<^bold>\<open>C10\<close>. A real-time Clock message sets \<open>extClockPending\<close> and changes nothing else, in
  every state, also while the internal timer is armed; the next pass of \<open>loop\<close> without
  an internal pulse pending then runs the pulse step. A real-time byte other than
  Start, Stop and Clock leaves the state unchanged.
\<close>

theorem C10_clock_and_other_bytes:
  "RealTimeSystemHandler usbMIDI_Clock s = s\<lparr>extClockPending := True\<rparr>
   \<and> (b \<noteq> usbMIDI_Start \<and> b \<noteq> usbMIDI_Stop \<and> b \<noteq> usbMIDI_Clock
        \<longrightarrow> RealTimeSystemHandler b s = s)
   \<and> (\<not> pulsePending s \<longrightarrow>
        loop spp (RealTimeSystemHandler usbMIDI_Clock s)
          = Some (ClockPulseHandler spp (s\<lparr>extClockPending := False\<rparr>)))"
  by (simp add: RealTimeSystemHandler_def loop_def const_defs)

theorem C10_clock_and_other_bytes_witness:
  "usbMIDI_Continue \<noteq> usbMIDI_Start \<and> usbMIDI_Continue \<noteq> usbMIDI_Stop
   \<and> usbMIDI_Continue \<noteq> usbMIDI_Clock
   \<and> RealTimeSystemHandler usbMIDI_Continue (init\<lparr>timerEn := True, midiClockTimer := Some 41666\<rparr>) = init\<lparr>timerEn := True, midiClockTimer := Some 41666\<rparr>
   \<and> \<not> pulsePending (init\<lparr>timerEn := True, midiClockTimer := Some 41666\<rparr>)
   \<and> loop False (RealTimeSystemHandler usbMIDI_Clock (init\<lparr>timerEn := True, midiClockTimer := Some 41666\<rparr>))
       = Some (init\<lparr>timerEn := True, midiClockTimer := Some 41666, pulseCounter := 1,
                 led := True\<rparr>)"
  using C10_clock_and_other_bytes [of "init\<lparr>timerEn := True, midiClockTimer := Some 41666\<rparr>" usbMIDI_Continue False]
  by (simp add: init_def const_defs ClockPulseHandler_plain RealTimeSystemHandler_def loop_def)

text \<open>
  \<^bold>\<open>C9\<close>. A Control Change with controller number 3, on any channel, and a Program Change
  on channel 15 reprogram the timer when \<open>timerEn\<close> is set and start it otherwise; a
  Control Change with another controller number and a Program Change on another channel
  leave the state unchanged. After a qualifying message \<open>timerEn\<close> is set, and from a
  state where the flag agrees with the hardware the timer runs with the new interval.
\<close>

theorem C9_tempo_messages:
  "(\<exists>us. clockIntervalUs v = Some us
      \<and> CC_Handler ch 3 v s
          = Some (if timerEn s then IntervalTimer_update us s
                  else s\<lparr>midiClockTimer := Some us, timerEn := True\<rparr>)
      \<and> PC_Handler 15 v s
          = Some (if timerEn s then IntervalTimer_update us s
                  else s\<lparr>midiClockTimer := Some us, timerEn := True\<rparr>))
   \<and> (control \<noteq> 3 \<longrightarrow> CC_Handler ch control v s = Some s)
   \<and> (ch \<noteq> 15 \<longrightarrow> PC_Handler ch v s = Some s)
   \<and> (\<forall>s'. CC_Handler ch 3 v s = Some s' \<or> PC_Handler 15 v s = Some s'
        \<longrightarrow> timerEn s'
          \<and> (timer_consistent s
               \<longrightarrow> midiClockTimer s' = clockIntervalUs v \<and> timer_consistent s'))"
  by (auto simp: CC_Handler_def PC_Handler_def clockIntervalUs_byte const_defs service_defs
      timer_consistent_def split: option.splits)

theorem C9_tempo_messages_witness:
  "(7 :: byte) \<noteq> 3 \<and> CC_Handler 1 7 20 init = Some init
   \<and> (1 :: byte) \<noteq> 15 \<and> PC_Handler 1 20 init = Some init
   \<and> CC_Handler 1 3 20 init = Some (init\<lparr>midiClockTimer := Some 41666, timerEn := True\<rparr>)
   \<and> PC_Handler 15 20 init = Some (init\<lparr>midiClockTimer := Some 41666, timerEn := True\<rparr>)
   \<and> timer_consistent init
   \<and> timer_consistent (init\<lparr>midiClockTimer := Some 41666, timerEn := True\<rparr>)"
proof -
  have us: "clockIntervalUs 20 = Some 41666"
    using clockIntervalUs_byte [of 20]
    by (simp add: float_ClockInterval_def spec_ClockInterval_def)
  have c: "timer_consistent init"
    by (simp add: init_def timer_consistent_def)
  show ?thesis
    using C9_tempo_messages [of 20 1 init 7] us c
    by (auto simp: init_def service_defs)
qed

section \<open>Pulse step and main loop\<close>

text \<open>
  \<^bold>\<open>C5\<close>. For every prior value of \<open>pulseCounter\<close>, one pulse step of the sketch as built
  (\<^verbatim>\<open>SPP_SYNC\<close> undefined) sets the LED on exactly when the prior value is 0, off exactly
  when it is 12, leaves it as it was otherwise, changes nothing else, and advances
  \<open>pulseCounter\<close> to \<open>(prior + 1) mod 24\<close>.
\<close>

theorem C5_pulse_step:
  "ClockPulseHandler False s =
     s\<lparr>led := (if pulseCounter s = 0 then True else if pulseCounter s = 12 then False else led s),
       pulseCounter := of_nat ((unat (pulseCounter s) + 1) mod 24)\<rparr>
   \<and> unat (pulseCounter (ClockPulseHandler False s)) = (unat (pulseCounter s) + 1) mod 24"
  by (simp add: ClockPulseHandler_plain unat_next_pulse_Suc)

text \<open>
  \<^bold>\<open>C3\<close>. One pass of \<open>loop\<close> does exactly one of three things, in this priority: with an
  internal pulse pending it sends one real-time Clock followed by \<^verbatim>\<open>send_now\<close>, clears the
  flag and runs the pulse step, leaving a pending external pulse and the inbound
  messages alone; otherwise, with an external pulse pending, it clears that flag and
  runs the pulse step without sending anything; otherwise it reads the transport once,
  which takes at most one inbound message, sends nothing and does not touch the LED.
\<close>

theorem C3_loop_priority:
  "(pulsePending s \<longrightarrow>
      (\<exists>s'. loop spp s = Some s'
         \<and> s' = ClockPulseHandler spp
                  (s\<lparr>usb_out := usb_out s @ [SendRealTime usbMIDI_Clock, SendNow],
                     pulsePending := False\<rparr>)
         \<and> \<not> pulsePending s'
         \<and> usb_out s' = usb_out s @ [SendRealTime usbMIDI_Clock, SendNow]
         \<and> extClockPending s' = extClockPending s
         \<and> usb_in s' = usb_in s))
   \<and> (\<not> pulsePending s \<and> extClockPending s \<longrightarrow>
      (\<exists>s'. loop spp s = Some s'
         \<and> s' = ClockPulseHandler spp (s\<lparr>extClockPending := False\<rparr>)
         \<and> \<not> extClockPending s'
         \<and> usb_out s' = usb_out s
         \<and> usb_in s' = usb_in s))
   \<and> (\<not> pulsePending s \<and> \<not> extClockPending s \<longrightarrow>
      (\<exists>s'. loop spp s = Some s'
         \<and> usbMIDI_read spp s = Some s'
         \<and> usb_in s' = tl (usb_in s)
         \<and> usb_out s' = usb_out s
         \<and> led s' = led s))"
proof (intro conjI impI)
  assume "pulsePending s"
  then show "\<exists>s'. loop spp s = Some s'
         \<and> s' = ClockPulseHandler spp
                  (s\<lparr>usb_out := usb_out s @ [SendRealTime usbMIDI_Clock, SendNow],
                     pulsePending := False\<rparr>)
         \<and> \<not> pulsePending s'
         \<and> usb_out s' = usb_out s @ [SendRealTime usbMIDI_Clock, SendNow]
         \<and> extClockPending s' = extClockPending s
         \<and> usb_in s' = usb_in s"
    by (simp add: loop_def service_defs ClockPulseHandler_frame)
next
  assume "\<not> pulsePending s \<and> extClockPending s"
  then show "\<exists>s'. loop spp s = Some s'
         \<and> s' = ClockPulseHandler spp (s\<lparr>extClockPending := False\<rparr>)
         \<and> \<not> extClockPending s'
         \<and> usb_out s' = usb_out s
         \<and> usb_in s' = usb_in s"
    by (simp add: loop_def ClockPulseHandler_frame)
next
  assume idle: "\<not> pulsePending s \<and> \<not> extClockPending s"
  obtain s' where r: "usbMIDI_read spp s = Some s'"
    using usbMIDI_read_total by blast
  with idle have "loop spp s = Some s'"
    by (simp add: loop_def)
  with r usbMIDI_read_frame [OF r]
  show "\<exists>s'. loop spp s = Some s'
         \<and> usbMIDI_read spp s = Some s'
         \<and> usb_in s' = tl (usb_in s)
         \<and> usb_out s' = usb_out s
         \<and> led s' = led s"
    by simp
qed

theorem C3_loop_priority_witness:
  "pulsePending (init\<lparr>pulsePending := True, extClockPending := True\<rparr>)
   \<and> loop False (init\<lparr>pulsePending := True, extClockPending := True\<rparr>)
       = Some (init\<lparr>extClockPending := True, pulseCounter := 1, led := True,
                 usb_out := [SendRealTime usbMIDI_Clock, SendNow]\<rparr>)
   \<and> \<not> pulsePending (init\<lparr>extClockPending := True\<rparr>)
   \<and> extClockPending (init\<lparr>extClockPending := True\<rparr>)
   \<and> loop False (init\<lparr>extClockPending := True\<rparr>) = Some (init\<lparr>pulseCounter := 1, led := True\<rparr>)
   \<and> \<not> pulsePending (init\<lparr>usb_in := [OtherMessage, OtherMessage]\<rparr>)
   \<and> \<not> extClockPending (init\<lparr>usb_in := [OtherMessage, OtherMessage]\<rparr>)
   \<and> loop False (init\<lparr>usb_in := [OtherMessage, OtherMessage]\<rparr>)
       = Some (init\<lparr>usb_in := [OtherMessage]\<rparr>)"
  using C3_loop_priority [of "init\<lparr>pulsePending := True, extClockPending := True\<rparr>" False]
    C3_loop_priority [of "init\<lparr>extClockPending := True\<rparr>" False]
    C3_loop_priority [of "init\<lparr>usb_in := [OtherMessage, OtherMessage]\<rparr>" False]
  by (simp add: init_def ClockPulseHandler_plain usbMIDI_read_def)

text \<open>
  \<^bold>\<open>C6\<close>. In every state the sketch can reach from its initial state, with or without
  \<^verbatim>\<open>SPP_SYNC\<close>, \<open>pulseCounter\<close> is below 24. Consuming a pulse, internal or external alike,
  takes it to \<open>(pulseCounter + 1) mod 24\<close>, hence from 23 back to 0.
\<close>

theorem C6_pulseCounter_range:
  "(reachable spp s \<longrightarrow> unat (pulseCounter s) < 24)
   \<and> (pulsePending s \<longrightarrow>
        (\<exists>s'. loop False s = Some s'
           \<and> unat (pulseCounter s') = (unat (pulseCounter s) + 1) mod 24))
   \<and> (\<not> pulsePending s \<and> extClockPending s \<longrightarrow>
        (\<exists>s'. loop False s = Some s'
           \<and> unat (pulseCounter s') = (unat (pulseCounter s) + 1) mod 24))"
  by (simp add: reachable_range loop_def service_defs ClockPulseHandler_plain
      unat_next_pulse_Suc)

theorem C6_pulseCounter_range_witness:
  "reachable False init \<and> unat (pulseCounter init) < 24
   \<and> pulsePending (init\<lparr>pulsePending := True, pulseCounter := 23\<rparr>)
   \<and> loop False (init\<lparr>pulsePending := True, pulseCounter := 23\<rparr>)
       = Some (init\<lparr>pulseCounter := 0, usb_out := [SendRealTime usbMIDI_Clock, SendNow]\<rparr>)
   \<and> \<not> pulsePending (init\<lparr>extClockPending := True, pulseCounter := 23\<rparr>)
   \<and> extClockPending (init\<lparr>extClockPending := True, pulseCounter := 23\<rparr>)
   \<and> loop False (init\<lparr>extClockPending := True, pulseCounter := 23\<rparr>)
       = Some (init\<lparr>pulseCounter := 0\<rparr>)"
  using C6_pulseCounter_range [of False init]
    C6_pulseCounter_range [of False "init\<lparr>pulsePending := True, pulseCounter := 23\<rparr>"]
    C6_pulseCounter_range [of False "init\<lparr>extClockPending := True, pulseCounter := 23\<rparr>"]
    reach_init [of False]
  by (simp add: init_def loop_def service_defs ClockPulseHandler_plain)

section \<open>Song position\<close>

text \<open>
  \<^bold>\<open>C4\<close>. What the song position code does at a measure boundary and off it: a song
  position of 16 leaves \<open>pulseCounter\<close> alone and a song position of 1 resets it, both
  through the explicit handler and through the per-beat increment. The condition is the
  inverse of the comment \<^verbatim>\<open>// resync once per measure\<close> beside it.
\<close>

theorem C4_song_position_resync:
  "pulseCounter (SongPositionHandler 16 (init\<lparr>pulseCounter := 5\<rparr>)) = 5
   \<and> pulseCounter (SongPositionHandler 1 (init\<lparr>pulseCounter := 5\<rparr>)) = 0
   \<and> SPP (SongPositionIncrement (init\<lparr>SPP := 15, pulseCounter := 5\<rparr>)) = 16
   \<and> pulseCounter (SongPositionIncrement (init\<lparr>SPP := 15, pulseCounter := 5\<rparr>)) = 5
   \<and> pulseCounter (SongPositionIncrement (init\<lparr>SPP := 0, pulseCounter := 5\<rparr>)) = 0"
  by (simp add: SongPositionIncrement_frame SongPositionHandler_frame init_def)

end
